theory Spec2Isabelle
  imports Complex_Main "HOL-Library.Log_Nat" "HOL-Library.Char_ord" "HOL-Library.List_Lexorder"
begin

section \<open>The class Vector of r14.py\<close>

text \<open>
  The file \<^verbatim>\<open>C02ObjectOrientedProgramming/Reinforcement/r14.py\<close> defines one class,
  \<^verbatim>\<open>Vector\<close>, whose only field is the list \<^verbatim>\<open>_coords\<close>. Its methods are embedded
  below one by one, under their Python names without the underscores; \<^verbatim>\<open>__str__\<close>, on
  which none of the properties below depends, is left out.

  The Python values considered are integers (unbounded), floats (IEEE 754 binary64),
  strings, \<^verbatim>\<open>None\<close>, plain lists of these, Vector objects and the generators that the
  class builds internally. Booleans, complex numbers and user-defined classes other than
  Vector are outside the model. Memory is unbounded: no allocation fails. The
  interpreter is a 64-bit one: a repetition count or a length is an index-sized integer,
  between \<open>-2^63\<close> and \<open>2^63 - 1\<close> (\<^verbatim>\<open>sys.maxsize\<close>), and \<^verbatim>\<open>OverflowError\<close> is raised
  for a count outside that range before anything is allocated.
\<close>

subsection \<open>Exceptions\<close>

text \<open>
  One constructor per exception class the code can raise. \<open>TypeError (Some m)\<close>,
  \<open>ValueError m\<close> and \<open>AssertionError m\<close> carry the message the source gives;
  \<open>TypeError None\<close>, \<open>IndexError\<close>, \<open>AttributeError\<close> and \<open>OverflowError\<close> are
  raised by the interpreter, whose message texts are not modelled.
\<close>

datatype error =
    TypeError "string option"
  | ValueError string
  | AssertionError string
  | IndexError
  | AttributeError
  | OverflowError

fun is_TypeError :: "error + 'a \<Rightarrow> bool" where
  "is_TypeError (Inl (TypeError m)) = True"
| "is_TypeError r = False"

definition bind_res :: "error + 'a \<Rightarrow> ('a \<Rightarrow> error + 'b) \<Rightarrow> error + 'b" where
  "bind_res m f = (case m of Inl e \<Rightarrow> Inl e | Inr x \<Rightarrow> f x)"

subsection \<open>Floats\<close>

text \<open>
  A Python float is an IEEE 754 binary64 value. A finite one is the rational number it
  denotes; the two zeros are one value \<open>Fin 0\<close>, since no operation used by the class
  (\<^verbatim>\<open>+\<close>, \<^verbatim>\<open>-\<close>, \<^verbatim>\<open>*\<close>, unary \<^verbatim>\<open>-\<close>, \<^verbatim>\<open>==\<close>, \<^verbatim>\<open><\<close>, \<^verbatim>\<open><=\<close>) tells them apart.
  Arithmetic computes the exact rational result and rounds it to the nearest binary64
  value, ties to even, overflowing to an infinity.
\<close>

datatype pyfloat = Fin rat | PosInf | NegInf | NaN

definition pow2 :: "int \<Rightarrow> rat" where
  "pow2 e = (if 0 \<le> e then 2 ^ nat e else 1 / 2 ^ nat (- e))"

definition floor_log2 :: "rat \<Rightarrow> int" where
  \<comment> \<open>for \<open>q > 0\<close>: the \<open>e\<close> with \<open>2^e \<le> q < 2^(e+1)\<close>\<close>
  "floor_log2 q =
     (let e0 = bitlen (fst (quotient_of q)) - bitlen (snd (quotient_of q))
      in if pow2 e0 \<le> q then e0 else e0 - 1)"

definition round_half_even :: "rat \<Rightarrow> int" where
  "round_half_even q =
     (let f = \<lfloor>q\<rfloor>; d = q - of_int f
      in if d < 1 / 2 then f else if 1 / 2 < d then f + 1
         else if even f then f else f + 1)"

definition round64 :: "rat \<Rightarrow> pyfloat" where
  "round64 q =
     (if q = 0 then Fin 0
      else let e = max (floor_log2 \<bar>q\<bar>) (- 1022);
               u = pow2 (e - 52);
               r = of_int (round_half_even (q / u)) * u
           in if pow2 1024 \<le> \<bar>r\<bar> then (if 0 < q then PosInf else NegInf) else Fin r)"

fun fneg :: "pyfloat \<Rightarrow> pyfloat" where
  "fneg (Fin a) = Fin (- a)"
| "fneg PosInf = NegInf"
| "fneg NegInf = PosInf"
| "fneg NaN = NaN"

fun fadd :: "pyfloat \<Rightarrow> pyfloat \<Rightarrow> pyfloat" where
  "fadd (Fin a) (Fin b) = round64 (a + b)"
| "fadd NaN y = NaN"
| "fadd x NaN = NaN"
| "fadd PosInf NegInf = NaN"
| "fadd NegInf PosInf = NaN"
| "fadd PosInf y = PosInf"
| "fadd NegInf y = NegInf"
| "fadd x PosInf = PosInf"
| "fadd x NegInf = NegInf"

definition fsub :: "pyfloat \<Rightarrow> pyfloat \<Rightarrow> pyfloat" where
  \<comment> \<open>IEEE 754: \<open>x - y\<close> is \<open>x + (-y)\<close>\<close>
  "fsub x y = fadd x (fneg y)"

fun inf_times :: "bool \<Rightarrow> pyfloat \<Rightarrow> pyfloat" where
  \<comment> \<open>an infinity (positive iff the flag) times a float\<close>
  "inf_times pos (Fin b) =
     (if b = 0 then NaN else if (0 < b) = pos then PosInf else NegInf)"
| "inf_times pos PosInf = (if pos then PosInf else NegInf)"
| "inf_times pos NegInf = (if pos then NegInf else PosInf)"
| "inf_times pos NaN = NaN"

fun fmul :: "pyfloat \<Rightarrow> pyfloat \<Rightarrow> pyfloat" where
  "fmul (Fin a) (Fin b) = round64 (a * b)"
| "fmul NaN y = NaN"
| "fmul x NaN = NaN"
| "fmul PosInf y = inf_times True y"
| "fmul NegInf y = inf_times False y"
| "fmul x PosInf = inf_times True x"
| "fmul x NegInf = inf_times False x"

fun float_eq :: "pyfloat \<Rightarrow> pyfloat \<Rightarrow> bool" where
  "float_eq (Fin a) (Fin b) = (a = b)"
| "float_eq PosInf PosInf = True"
| "float_eq NegInf NegInf = True"
| "float_eq x y = False"

fun float_lt :: "pyfloat \<Rightarrow> pyfloat \<Rightarrow> bool" where
  "float_lt (Fin a) (Fin b) = (a < b)"
| "float_lt NaN y = False"
| "float_lt x NaN = False"
| "float_lt PosInf y = False"
| "float_lt x NegInf = False"
| "float_lt NegInf y = True"
| "float_lt x PosInf = True"

definition float_le :: "pyfloat \<Rightarrow> pyfloat \<Rightarrow> bool" where
  "float_le x y = (float_lt x y \<or> float_eq x y)"

definition int_to_float :: "int \<Rightarrow> error + pyfloat" where
  \<comment> \<open>the conversion done when an int meets a float in \<^verbatim>\<open>+\<close>, \<^verbatim>\<open>-\<close>, \<^verbatim>\<open>*\<close>:
      correctly rounded, \<^verbatim>\<open>OverflowError\<close> beyond the float range\<close>
  "int_to_float i =
     (case round64 (of_int i) of Fin r \<Rightarrow> Inr (Fin r) | f \<Rightarrow> Inl OverflowError)"

subsection \<open>Index-sized integers\<close>

definition max_index :: int where
  \<comment> \<open>\<^verbatim>\<open>sys.maxsize\<close>\<close>
  "max_index = 2 ^ 63 - 1"

definition fits_index :: "int \<Rightarrow> bool" where
  "fits_index n = (- max_index - 1 \<le> n \<and> n \<le> max_index)"

definition str_repeat :: "string \<Rightarrow> int \<Rightarrow> error + string" where
  \<comment> \<open>\<^verbatim>\<open>s * n\<close>: the count must fit an index, and so must the length of the result\<close>
  "str_repeat s n =
     (if \<not> fits_index n then Inl OverflowError
      else if n \<le> 0 then Inr []
      else if max_index div n < int (length s) then Inl OverflowError
      else Inr (concat (replicate (nat n) s)))"

subsection \<open>Coordinates and their operators\<close>

datatype pyval = PInt int | PFloat pyfloat | PStr string | PNone

fun numeric :: "pyval \<Rightarrow> bool" where
  "numeric (PInt a) = True"
| "numeric (PFloat x) = True"
| "numeric v = False"

fun is_int :: "pyval \<Rightarrow> bool" where
  "is_int (PInt a) = True"
| "is_int v = False"

fun finite_num :: "pyval \<Rightarrow> bool" where
  \<comment> \<open>an int, or a float that is neither an infinity nor NaN\<close>
  "finite_num (PInt a) = True"
| "finite_num (PFloat (Fin q)) = True"
| "finite_num v = False"

fun non_nan :: "pyval \<Rightarrow> bool" where
  \<comment> \<open>an int, or a float other than NaN\<close>
  "non_nan (PInt a) = True"
| "non_nan (PFloat (Fin q)) = True"
| "non_nan (PFloat PosInf) = True"
| "non_nan (PFloat NegInf) = True"
| "non_nan v = False"

fun py_add :: "pyval \<Rightarrow> pyval \<Rightarrow> error + pyval" where
  "py_add (PInt a) (PInt b) = Inr (PInt (a + b))"
| "py_add (PInt a) (PFloat y) = bind_res (int_to_float a) (\<lambda>x. Inr (PFloat (fadd x y)))"
| "py_add (PFloat x) (PInt b) = bind_res (int_to_float b) (\<lambda>y. Inr (PFloat (fadd x y)))"
| "py_add (PFloat x) (PFloat y) = Inr (PFloat (fadd x y))"
| "py_add (PStr s) (PStr t) = Inr (PStr (s @ t))"
| "py_add v w = Inl (TypeError None)"

fun py_sub :: "pyval \<Rightarrow> pyval \<Rightarrow> error + pyval" where
  "py_sub (PInt a) (PInt b) = Inr (PInt (a - b))"
| "py_sub (PInt a) (PFloat y) = bind_res (int_to_float a) (\<lambda>x. Inr (PFloat (fsub x y)))"
| "py_sub (PFloat x) (PInt b) = bind_res (int_to_float b) (\<lambda>y. Inr (PFloat (fsub x y)))"
| "py_sub (PFloat x) (PFloat y) = Inr (PFloat (fsub x y))"
| "py_sub v w = Inl (TypeError None)"

fun py_mul :: "pyval \<Rightarrow> pyval \<Rightarrow> error + pyval" where
  "py_mul (PInt a) (PInt b) = Inr (PInt (a * b))"
| "py_mul (PInt a) (PFloat y) = bind_res (int_to_float a) (\<lambda>x. Inr (PFloat (fmul x y)))"
| "py_mul (PFloat x) (PInt b) = bind_res (int_to_float b) (\<lambda>y. Inr (PFloat (fmul x y)))"
| "py_mul (PFloat x) (PFloat y) = Inr (PFloat (fmul x y))"
| "py_mul (PStr s) (PInt n) = bind_res (str_repeat s n) (\<lambda>r. Inr (PStr r))"
| "py_mul (PInt n) (PStr s) = bind_res (str_repeat s n) (\<lambda>r. Inr (PStr r))"
| "py_mul v w = Inl (TypeError None)"

fun py_neg :: "pyval \<Rightarrow> error + pyval" where
  "py_neg (PInt a) = Inr (PInt (- a))"
| "py_neg (PFloat x) = Inr (PFloat (fneg x))"
| "py_neg v = Inl (TypeError None)"

text \<open>
  \<^verbatim>\<open>==\<close> never raises; an int and a float are compared by their exact values.
\<close>

fun py_eq :: "pyval \<Rightarrow> pyval \<Rightarrow> bool" where
  "py_eq (PInt a) (PInt b) = (a = b)"
| "py_eq (PInt a) (PFloat y) = float_eq (Fin (of_int a)) y"
| "py_eq (PFloat x) (PInt b) = float_eq x (Fin (of_int b))"
| "py_eq (PFloat x) (PFloat y) = float_eq x y"
| "py_eq (PStr s) (PStr t) = (s = t)"
| "py_eq PNone PNone = True"
| "py_eq v w = False"

fun py_lt :: "pyval \<Rightarrow> pyval \<Rightarrow> error + bool" where
  "py_lt (PInt a) (PInt b) = Inr (a < b)"
| "py_lt (PInt a) (PFloat y) = Inr (float_lt (Fin (of_int a)) y)"
| "py_lt (PFloat x) (PInt b) = Inr (float_lt x (Fin (of_int b)))"
| "py_lt (PFloat x) (PFloat y) = Inr (float_lt x y)"
| "py_lt (PStr s) (PStr t) = Inr (s < t)"
| "py_lt v w = Inl (TypeError None)"

fun py_le :: "pyval \<Rightarrow> pyval \<Rightarrow> error + bool" where
  "py_le (PInt a) (PInt b) = Inr (a \<le> b)"
| "py_le (PInt a) (PFloat y) = Inr (float_le (Fin (of_int a)) y)"
| "py_le (PFloat x) (PInt b) = Inr (float_le x (Fin (of_int b)))"
| "py_le (PFloat x) (PFloat y) = Inr (float_le x y)"
| "py_le (PStr s) (PStr t) = Inr (s \<le> t)"
| "py_le v w = Inl (TypeError None)"

subsection \<open>Lists\<close>

text \<open>
  Indexing a Python list: an index \<open>i\<close> with \<open>0 \<le> i < n\<close> addresses position \<open>i\<close>, an
  index with \<open>-n \<le> i < 0\<close> addresses position \<open>n + i\<close>, any other integer raises
  \<^verbatim>\<open>IndexError\<close>.
\<close>

definition list_getitem :: "'a list \<Rightarrow> int \<Rightarrow> error + 'a" where
  "list_getitem xs i =
     (if 0 \<le> i \<and> i < int (length xs) then Inr (xs ! nat i)
      else if - int (length xs) \<le> i \<and> i < 0 then Inr (xs ! nat (int (length xs) + i))
      else Inl IndexError)"

definition list_setitem :: "'a list \<Rightarrow> int \<Rightarrow> 'a \<Rightarrow> error + 'a list" where
  "list_setitem xs i x =
     (if 0 \<le> i \<and> i < int (length xs) then Inr (xs[nat i := x])
      else if - int (length xs) \<le> i \<and> i < 0 then Inr (xs[nat (int (length xs) + i) := x])
      else Inl IndexError)"

definition list_repeat :: "'a list \<Rightarrow> int \<Rightarrow> error + 'a list" where
  \<comment> \<open>\<^verbatim>\<open>xs * n\<close>: a count that does not fit an index raises \<^verbatim>\<open>OverflowError\<close>;
      a count below one gives the empty list; \<^verbatim>\<open>MemoryError\<close> is not modelled\<close>
  "list_repeat xs n =
     (if \<not> fits_index n then Inl OverflowError
      else if n \<le> 0 then Inr []
      else Inr (concat (replicate (nat n) xs)))"

text \<open>
  Comparison of two lists, as \<^verbatim>\<open>==\<close>, \<^verbatim>\<open><\<close> and \<^verbatim>\<open><=\<close> do it: the first position where
  the items are not equal decides; without one, the lengths decide. The interpreter
  takes an item to be equal to itself without calling \<^verbatim>\<open>==\<close>; items have no identity
  here, so the three functions describe lists that do not share a NaN object.
\<close>

fun list_eq :: "pyval list \<Rightarrow> pyval list \<Rightarrow> bool" where
  "list_eq [] [] = True"
| "list_eq (x # xs) (y # ys) = (py_eq x y \<and> list_eq xs ys)"
| "list_eq xs ys = False"

fun list_lt :: "pyval list \<Rightarrow> pyval list \<Rightarrow> error + bool" where
  "list_lt (x # xs) (y # ys) = (if py_eq x y then list_lt xs ys else py_lt x y)"
| "list_lt [] (y # ys) = Inr True"
| "list_lt xs [] = Inr False"

fun list_le :: "pyval list \<Rightarrow> pyval list \<Rightarrow> error + bool" where
  "list_le (x # xs) (y # ys) = (if py_eq x y then list_le xs ys else py_le x y)"
| "list_le [] ys = Inr True"
| "list_le (x # xs) [] = Inr False"

subsection \<open>Objects and the heap\<close>

text \<open>
  A Vector object has the one field \<^verbatim>\<open>_coords\<close>. The heap is the list of the Vector
  objects allocated so far and an object's identity is its position in it; creating an
  object appends it. The list held by \<^verbatim>\<open>_coords\<close> is created by the constructor and never
  handed out, so it is kept inside its Vector.

  \<open>allocated h a\<close>: the heap \<open>h\<close> holds an object at \<open>a\<close>. \<open>is_Vector h a\<close>: that object
  is a Vector as the interpreter can hold one, its list being no longer than
  \<^verbatim>\<open>sys.maxsize\<close>, as the length of every list of the interpreter is.
\<close>

record Vector =
  coords :: "pyval list"

type_synonym addr = nat
type_synonym heap = "Vector list"

definition allocated :: "heap \<Rightarrow> addr \<Rightarrow> bool" where
  "allocated h a = (a < length h)"

definition is_Vector :: "heap \<Rightarrow> addr \<Rightarrow> bool" where
  "is_Vector h a = (allocated h a \<and> int (length (coords (h ! a))) \<le> max_index)"

definition alloc :: "heap \<Rightarrow> pyval list \<Rightarrow> heap \<times> addr" where
  "alloc h cs = (h @ [\<lparr>coords = cs\<rparr>], length h)"

text \<open>
  What a method can be handed as an argument: a scalar, a plain list, a reference to a
  Vector, or a generator. A generator is the list of the outcomes of computing its items
  in turn; consuming it stops at the first one that raises.
\<close>

datatype pyobj =
    Atom pyval
  | PList "pyval list"
  | Ref addr
  | Gen "(error + pyval) list"

fun run_gen :: "(error + pyval) list \<Rightarrow> error + pyval list" where
  "run_gen [] = Inr []"
| "run_gen (Inl e # rs) = Inl e"
| "run_gen (Inr x # rs) = bind_res (run_gen rs) (\<lambda>xs. Inr (x # xs))"

subsection \<open>The methods\<close>

definition Vector_len :: "heap \<Rightarrow> addr \<Rightarrow> nat" where
  "Vector_len h self = length (coords (h ! self))"

definition Vector_getitem :: "heap \<Rightarrow> addr \<Rightarrow> int \<Rightarrow> error + pyval" where
  "Vector_getitem h self j = list_getitem (coords (h ! self)) j"

definition Vector_setitem :: "heap \<Rightarrow> addr \<Rightarrow> int \<Rightarrow> pyval \<Rightarrow> error + heap" where
  "Vector_setitem h self j val =
     bind_res (list_setitem (coords (h ! self)) j val)
       (\<lambda>cs. Inr (h[self := (h ! self)\<lparr>coords := cs\<rparr>]))"

text \<open>
  The class defines no \<^verbatim>\<open>__iter__\<close>: iterating over a Vector calls \<^verbatim>\<open>__getitem__\<close> with
  0, 1, 2, ... and stops at the first \<^verbatim>\<open>IndexError\<close>.
\<close>

function iter_from :: "heap \<Rightarrow> addr \<Rightarrow> nat \<Rightarrow> pyval list" where
  "iter_from h self j =
     (case Vector_getitem h self (int j) of
        Inr x \<Rightarrow> x # iter_from h self (Suc j)
      | Inl e \<Rightarrow> [])"
  by pat_completeness auto
termination
  by (relation "measure (\<lambda>(h, self, j). Vector_len h self - j)")
     (auto simp: Vector_getitem_def Vector_len_def list_getitem_def split: if_splits)

definition iter_Vector :: "heap \<Rightarrow> addr \<Rightarrow> pyval list" where
  "iter_Vector h self = iter_from h self 0"

fun py_len :: "heap \<Rightarrow> pyobj \<Rightarrow> error + nat" where
  "py_len h (Ref b) = Inr (Vector_len h b)"
| "py_len h (PList xs) = Inr (length xs)"
| "py_len h (Atom (PStr s)) = Inr (length s)"
| "py_len h x = Inl (TypeError None)"

fun py_getitem :: "heap \<Rightarrow> pyobj \<Rightarrow> int \<Rightarrow> error + pyval" where
  "py_getitem h (Ref b) j = Vector_getitem h b j"
| "py_getitem h (PList xs) j = list_getitem xs j"
| "py_getitem h (Atom (PStr s)) j = bind_res (list_getitem s j) (\<lambda>c. Inr (PStr [c]))"
| "py_getitem h x j = Inl (TypeError None)"

fun py_iter :: "heap \<Rightarrow> pyobj \<Rightarrow> error + pyval list" where
  \<comment> \<open>\<^verbatim>\<open>[val for val in d]\<close>\<close>
  "py_iter h (Ref b) = Inr (iter_Vector h b)"
| "py_iter h (PList xs) = Inr xs"
| "py_iter h (Gen g) = run_gen g"
| "py_iter h (Atom (PStr s)) = Inr (map (\<lambda>c. PStr [c]) s)"
| "py_iter h (Atom v) = Inl (TypeError None)"

text \<open>
  \<^verbatim>\<open>__init__\<close>: an int gives that many zeros, by \<^verbatim>\<open>[0] * d\<close>, whose \<^verbatim>\<open>OverflowError\<close>
  nothing catches; anything else is iterated, and a
  \<^verbatim>\<open>TypeError\<close> raised meanwhile (by the argument not being iterable, or by a generator's
  item) is replaced by \<^verbatim>\<open>TypeError('invalid parameter type')\<close>. Other exceptions pass.
\<close>

definition Vector_init :: "heap \<Rightarrow> pyobj \<Rightarrow> error + heap \<times> addr" where
  "Vector_init h d =
     (case d of
        Atom (PInt n) \<Rightarrow> bind_res (list_repeat [PInt 0] n) (\<lambda>cs. Inr (alloc h cs))
      | _ \<Rightarrow>
          (case py_iter h d of
             Inr cs \<Rightarrow> Inr (alloc h cs)
           | Inl (TypeError m) \<Rightarrow> Inl (TypeError (Some ''invalid parameter type''))
           | Inl e \<Rightarrow> Inl e))"

text \<open>
  The loop of \<^verbatim>\<open>__add__\<close> and \<^verbatim>\<open>__sub__\<close>,
  \<^verbatim>\<open>for j in range(len(self)): result[j] = self[j] op other[j]\<close>,
  over the indices still to visit.
\<close>

fun binop_loop ::
  "(pyval \<Rightarrow> pyval \<Rightarrow> error + pyval) \<Rightarrow> heap \<Rightarrow> addr \<Rightarrow> addr \<Rightarrow> pyobj \<Rightarrow> nat list
     \<Rightarrow> error + heap" where
  "binop_loop oper h result self other [] = Inr h"
| "binop_loop oper h result self other (j # js) =
     bind_res (Vector_getitem h self (int j)) (\<lambda>x.
     bind_res (py_getitem h other (int j)) (\<lambda>y.
     bind_res (oper x y) (\<lambda>z.
     bind_res (Vector_setitem h result (int j) z) (\<lambda>h'.
     binop_loop oper h' result self other js))))"

definition Vector_add :: "heap \<Rightarrow> addr \<Rightarrow> pyobj \<Rightarrow> error + heap \<times> addr" where
  "Vector_add h self other =
     bind_res (py_len h other) (\<lambda>m.
       if Vector_len h self \<noteq> m then Inl (ValueError ''dimensions must agree'')
       else bind_res (Vector_init h (Atom (PInt (int (Vector_len h self))))) (\<lambda>(h1, result).
            bind_res (binop_loop py_add h1 result self other [0..<Vector_len h1 self]) (\<lambda>h2.
            Inr (h2, result))))"

definition Vector_radd :: "heap \<Rightarrow> addr \<Rightarrow> pyobj \<Rightarrow> error + heap \<times> addr" where
  "Vector_radd h self other = Vector_add h self other"

definition Vector_sub :: "heap \<Rightarrow> addr \<Rightarrow> pyobj \<Rightarrow> error + heap \<times> addr" where
  "Vector_sub h self other =
     bind_res (py_len h other) (\<lambda>m.
       if Vector_len h self \<noteq> m then Inl (ValueError ''dimensions must agree'')
       else bind_res (Vector_init h (Atom (PInt (int (Vector_len h self))))) (\<lambda>(h1, result).
            bind_res (binop_loop py_sub h1 result self other [0..<Vector_len h1 self]) (\<lambda>h2.
            Inr (h2, result))))"

fun type_repr :: "pyobj \<Rightarrow> string" where
  \<comment> \<open>\<^verbatim>\<open>str(type(x))\<close>; the class Vector as named when the file runs as a script\<close>
  "type_repr (Atom (PInt a)) = ''<class '' @ [CHR 0x27] @ ''int'' @ [CHR 0x27] @ ''>''"
| "type_repr (Atom (PFloat x)) = ''<class '' @ [CHR 0x27] @ ''float'' @ [CHR 0x27] @ ''>''"
| "type_repr (Atom (PStr s)) = ''<class '' @ [CHR 0x27] @ ''str'' @ [CHR 0x27] @ ''>''"
| "type_repr (Atom PNone) = ''<class '' @ [CHR 0x27] @ ''NoneType'' @ [CHR 0x27] @ ''>''"
| "type_repr (PList xs) = ''<class '' @ [CHR 0x27] @ ''list'' @ [CHR 0x27] @ ''>''"
| "type_repr (Gen g) = ''<class '' @ [CHR 0x27] @ ''generator'' @ [CHR 0x27] @ ''>''"
| "type_repr (Ref b) = ''<class '' @ [CHR 0x27] @ ''__main__.Vector'' @ [CHR 0x27] @ ''>''"

fun is_scalar :: "pyobj \<Rightarrow> bool" where
  \<comment> \<open>\<^verbatim>\<open>isinstance(x, (float, int))\<close>\<close>
  "is_scalar (Atom (PInt a)) = True"
| "is_scalar (Atom (PFloat x)) = True"
| "is_scalar x = False"

fun is_Ref :: "pyobj \<Rightarrow> bool" where
  \<comment> \<open>\<^verbatim>\<open>isinstance(x, Vector)\<close>\<close>
  "is_Ref (Ref b) = True"
| "is_Ref x = False"

text \<open>
  \<^verbatim>\<open>__mul__\<close>: the \<^verbatim>\<open>assert\<close> comes first, so the \<^verbatim>\<open>else\<close> branch only ever sees an
  int or a float.
\<close>

definition Vector_mul :: "heap \<Rightarrow> addr \<Rightarrow> pyobj \<Rightarrow> error + heap \<times> addr" where
  "Vector_mul h self other =
     (case other of
        Ref b \<Rightarrow>
          Vector_init h
            (Gen (map (\<lambda>(a, b). py_mul a b) (zip (iter_Vector h self) (iter_Vector h b))))
      | Atom (PInt n) \<Rightarrow>
          Vector_init h (Gen (map (\<lambda>e. py_mul e (PInt n)) (iter_Vector h self)))
      | Atom (PFloat x) \<Rightarrow>
          Vector_init h (Gen (map (\<lambda>e. py_mul e (PFloat x)) (iter_Vector h self)))
      | _ \<Rightarrow>
          Inl (AssertionError
                 (''can'' @ [CHR 0x27] @ ''t multiply Vector and '' @ type_repr other)))"

definition Vector_rmul :: "heap \<Rightarrow> addr \<Rightarrow> pyobj \<Rightarrow> error + heap \<times> addr" where
  "Vector_rmul h self other = Vector_mul h self other"

definition Vector_eq :: "heap \<Rightarrow> addr \<Rightarrow> pyobj \<Rightarrow> error + bool" where
  \<comment> \<open>\<^verbatim>\<open>other._coords\<close> exists on a Vector only\<close>
  "Vector_eq h self other =
     (case other of
        Ref b \<Rightarrow> Inr (list_eq (coords (h ! self)) (coords (h ! b)))
      | _ \<Rightarrow> Inl AttributeError)"

definition Vector_ne :: "heap \<Rightarrow> addr \<Rightarrow> pyobj \<Rightarrow> error + bool" where
  "Vector_ne h self other = bind_res (Vector_eq h self other) (\<lambda>r. Inr (\<not> r))"

definition Vector_neg :: "heap \<Rightarrow> addr \<Rightarrow> error + heap \<times> addr" where
  "Vector_neg h self = Vector_init h (Gen (map py_neg (iter_Vector h self)))"

definition Vector_lt :: "heap \<Rightarrow> addr \<Rightarrow> pyobj \<Rightarrow> error + bool" where
  "Vector_lt h self other =
     bind_res (py_len h other) (\<lambda>m.
       if Vector_len h self \<noteq> m then Inl (ValueError ''dimensions must agree'')
       else case other of
              Ref b \<Rightarrow> list_lt (coords (h ! self)) (coords (h ! b))
            | _ \<Rightarrow> Inl AttributeError)"

definition Vector_le :: "heap \<Rightarrow> addr \<Rightarrow> pyobj \<Rightarrow> error + bool" where
  "Vector_le h self other =
     bind_res (py_len h other) (\<lambda>m.
       if Vector_len h self \<noteq> m then Inl (ValueError ''dimensions must agree'')
       else case other of
              Ref b \<Rightarrow> list_le (coords (h ! self)) (coords (h ! b))
            | _ \<Rightarrow> Inl AttributeError)"

subsection \<open>The expressions of the algebraic laws\<close>

text \<open>
  The tests the specification states as laws, written out as the calls they make:
  \<^verbatim>\<open>(a - b) + b == a\<close>, \<^verbatim>\<open>-(-v) == v\<close> and \<^verbatim>\<open>v + (-v) == Vector(len(v))\<close>.
\<close>

definition sub_add_roundtrip :: "heap \<Rightarrow> addr \<Rightarrow> addr \<Rightarrow> error + bool" where
  "sub_add_roundtrip h a b =
     bind_res (Vector_sub h a (Ref b)) (\<lambda>(h1, d).
     bind_res (Vector_add h1 d (Ref b)) (\<lambda>(h2, s).
     Vector_eq h2 s (Ref a)))"

definition neg_neg_eq :: "heap \<Rightarrow> addr \<Rightarrow> error + bool" where
  "neg_neg_eq h v =
     bind_res (Vector_neg h v) (\<lambda>(h1, n).
     bind_res (Vector_neg h1 n) (\<lambda>(h2, m).
     Vector_eq h2 m (Ref v)))"

definition add_neg_eq_zero :: "heap \<Rightarrow> addr \<Rightarrow> error + bool" where
  "add_neg_eq_zero h v =
     bind_res (Vector_neg h v) (\<lambda>(h1, n).
     bind_res (Vector_add h1 v (Ref n)) (\<lambda>(h2, s).
     bind_res (Vector_init h2 (Atom (PInt (int (Vector_len h2 v))))) (\<lambda>(h3, z).
     Vector_eq h3 s (Ref z))))"

fun is_ValueError :: "error + 'a \<Rightarrow> bool" where
  "is_ValueError (Inl (ValueError m)) = True"
| "is_ValueError r = False"

subsection \<open>What a new result is\<close>

text \<open>
  \<open>fresh_result h h' r\<close>: going from heap \<open>h\<close> to heap \<open>h'\<close>, the object \<open>r\<close> is new, and
  every object of \<open>h\<close> is another object than \<open>r\<close>, is still there and holds the same
  coordinates.
\<close>

definition fresh_result :: "heap \<Rightarrow> heap \<Rightarrow> addr \<Rightarrow> bool" where
  "fresh_result h h' r =
     (\<not> allocated h r \<and> allocated h' r
      \<and> (\<forall>x. allocated h x \<longrightarrow> x \<noteq> r \<and> allocated h' x \<and> coords (h' ! x) = coords (h ! x)))"

section \<open>Properties\<close>

subsection \<open>Auxiliary facts\<close>

lemma bind_res_Inl [simp]: "bind_res (Inl e) f = Inl e"
  by (simp add: bind_res_def)

lemma bind_res_Inr [simp]: "bind_res (Inr x) f = f x"
  by (simp add: bind_res_def)

lemma bind_res_eq_Inr:
  "bind_res m f = Inr y \<longleftrightarrow> (\<exists>x. m = Inr x \<and> f x = Inr y)"
  by (cases m) simp_all

lemma list_getitem_nat:
  "j < length xs \<Longrightarrow> list_getitem xs (int j) = Inr (xs ! j)"
  by (simp add: list_getitem_def)

lemma list_getitem_nat_out:
  "length xs \<le> j \<Longrightarrow> list_getitem xs (int j) = Inl IndexError"
  by (simp add: list_getitem_def)

lemma list_setitem_nat:
  "j < length xs \<Longrightarrow> list_setitem xs (int j) x = Inr (xs[j := x])"
  by (simp add: list_setitem_def)

lemma list_setitem_length:
  "list_setitem xs i x = Inr ys \<Longrightarrow> length ys = length xs"
  by (auto simp: list_setitem_def split: if_splits)

declare iter_from.simps [simp del]

lemma iter_from_drop: "iter_from h a j = drop j (coords (h ! a))"
proof (induction h a j rule: iter_from.induct)
  case (1 h self j)
  show ?case
  proof (cases "j < length (coords (h ! self))")
    case True
    then have g: "Vector_getitem h self (int j) = Inr (coords (h ! self) ! j)"
      by (simp add: Vector_getitem_def list_getitem_nat)
    have "iter_from h self j = coords (h ! self) ! j # iter_from h self (Suc j)"
      by (subst iter_from.simps) (simp add: g)
    also have "\<dots> = coords (h ! self) ! j # drop (Suc j) (coords (h ! self))"
      using "1.IH" [OF g] by simp
    finally show ?thesis
      using True by (simp add: Cons_nth_drop_Suc)
  next
    case False
    then have "Vector_getitem h self (int j) = Inl IndexError"
      by (simp add: Vector_getitem_def list_getitem_nat_out)
    then have "iter_from h self j = []"
      by (subst iter_from.simps) simp
    then show ?thesis
      using False by simp
  qed
qed

lemma iter_Vector_coords: "iter_Vector h a = coords (h ! a)"
  by (simp add: iter_Vector_def iter_from_drop)

lemma run_gen_all_Inr:
  "\<forall>x\<in>set xs. \<exists>y. g x = Inr y \<Longrightarrow> run_gen (map g xs) = Inr (map (\<lambda>x. projr (g x)) xs)"
  by (induction xs) auto

lemma run_gen_error:
  "run_gen rs = Inl e \<Longrightarrow> Inl e \<in> set rs"
proof (induction rs rule: run_gen.induct)
  case (3 x rs)
  then show ?case by (cases "run_gen rs") auto
qed auto

lemma concat_replicate_single: "concat (replicate n [x]) = replicate n x"
  by (induction n) auto

lemma list_repeat_single:
  "fits_index n \<Longrightarrow> list_repeat [x] n = Inr (replicate (nat n) x)"
  by (simp add: list_repeat_def concat_replicate_single)

lemma list_repeat_overflow: "\<not> fits_index n \<Longrightarrow> list_repeat xs n = Inl OverflowError"
  by (simp add: list_repeat_def)

lemma fits_index_length: "int n \<le> max_index \<Longrightarrow> fits_index (int n)"
  by (simp add: fits_index_def max_index_def)

lemma Vector_init_int:
  "fits_index n \<Longrightarrow>
     Vector_init h (Atom (PInt n)) = Inr (h @ [\<lparr>coords = replicate (nat n) (PInt 0)\<rparr>], length h)"
  by (simp add: Vector_init_def alloc_def list_repeat_single)

lemma Vector_init_overflow:
  "\<not> fits_index n \<Longrightarrow> Vector_init h (Atom (PInt n)) = Inl OverflowError"
  by (simp add: Vector_init_def list_repeat_overflow)

lemma Vector_init_Gen_ok:
  "run_gen g = Inr cs \<Longrightarrow> Vector_init h (Gen g) = Inr (h @ [\<lparr>coords = cs\<rparr>], length h)"
  by (simp add: Vector_init_def alloc_def)

lemma Vector_init_Inr:
  "Vector_init h d = Inr (h', r) \<Longrightarrow> r = length h \<and> (\<exists>cs. h' = h @ [\<lparr>coords = cs\<rparr>])"
  by (auto simp: Vector_init_def alloc_def bind_res_eq_Inr
        split: pyobj.splits pyval.splits sum.splits error.splits)

lemma Vector_setitem_frame:
  "Vector_setitem h r j z = Inr h' \<Longrightarrow> length h' = length h \<and> (\<forall>a. a \<noteq> r \<longrightarrow> h' ! a = h ! a)"
  by (auto simp: Vector_setitem_def bind_res_eq_Inr)

lemma binop_loop_frame:
  "binop_loop oper h r s other js = Inr h' \<Longrightarrow>
     length h' = length h \<and> (\<forall>a. a \<noteq> r \<longrightarrow> h' ! a = h ! a)"
proof (induction js arbitrary: h)
  case Nil
  then show ?case by simp
next
  case (Cons j js)
  from Cons.prems obtain h1 z
    where s1: "Vector_setitem h r (int j) z = Inr h1"
      and s2: "binop_loop oper h1 r s other js = Inr h'"
    by (auto simp: bind_res_eq_Inr)
  from Cons.IH [OF s2] Vector_setitem_frame [OF s1] show ?case
    by simp
qed


lemma Vector_update_conv [simp]: "(v::Vector)\<lparr>coords := cs\<rparr> = \<lparr>coords = cs\<rparr>"
  by (cases v) simp

lemma fold_update_upt:
  "n \<le> length cs \<Longrightarrow>
     fold (\<lambda>j xs. xs[j := f j]) [0..<n] cs = map f [0..<n] @ drop n cs"
proof (induction n)
  case 0
  then show ?case by simp
next
  case (Suc n)
  then have "n < length cs" by simp
  then have "(map f [0..<n] @ drop n cs)[n := f n] = map f [0..<n] @ f n # drop (Suc n) cs"
    by (simp add: list_update_append upd_conv_take_nth_drop)
  with Suc show ?case by simp
qed

lemma binop_loop_ok:
  assumes "r < length h" and "s \<noteq> r" and "b \<noteq> r"
    and "\<forall>j\<in>set js. j < length (coords (h ! r)) \<and> j < length (coords (h ! s))
           \<and> j < length (coords (h ! b))
           \<and> oper (coords (h ! s) ! j) (coords (h ! b) ! j) = Inr (f j)"
  shows "binop_loop oper h r s (Ref b) js =
           Inr (h[r := \<lparr>coords = fold (\<lambda>j xs. xs[j := f j]) js (coords (h ! r))\<rparr>])"
  using assms
proof (induction js arbitrary: h)
  case Nil
  have e: "\<lparr>coords = coords (h ! r)\<rparr> = h ! r"
    by simp
  show ?case
    unfolding binop_loop.simps fold_simps e by simp
next
  case (Cons j js)
  let ?h1 = "h[r := \<lparr>coords = (coords (h ! r))[j := f j]\<rparr>]"
  from Cons.prems have j: "j < length (coords (h ! r))" "j < length (coords (h ! s))"
    "j < length (coords (h ! b))" "oper (coords (h ! s) ! j) (coords (h ! b) ! j) = Inr (f j)"
    by simp_all
  have step: "binop_loop oper h r s (Ref b) (j # js) = binop_loop oper ?h1 r s (Ref b) js"
    using j by (simp add: Vector_getitem_def Vector_setitem_def list_getitem_nat list_setitem_nat)
  have frame: "?h1 ! s = h ! s" "?h1 ! b = h ! b" "?h1 ! r = \<lparr>coords = (coords (h ! r))[j := f j]\<rparr>"
    using Cons.prems(1-3) by simp_all
  have "binop_loop oper ?h1 r s (Ref b) js =
          Inr (?h1[r := \<lparr>coords = fold (\<lambda>j xs. xs[j := f j]) js (coords (?h1 ! r))\<rparr>])"
    using Cons.prems by (intro Cons.IH) (simp_all add: frame)
  with step show ?case
    by (simp add: frame)
qed

lemma binop_body_ok:
  assumes a: "a < length h" and b: "b < length h"
    and len: "length (coords (h ! a)) = length zs" "length (coords (h ! b)) = length zs"
    and fits: "int (length zs) \<le> max_index"
    and ok: "\<forall>j<length zs. oper (coords (h ! a) ! j) (coords (h ! b) ! j) = Inr (zs ! j)"
  shows "bind_res (py_len h (Ref b)) (\<lambda>m.
       if Vector_len h a \<noteq> m then Inl (ValueError ''dimensions must agree'')
       else bind_res (Vector_init h (Atom (PInt (int (Vector_len h a))))) (\<lambda>(h1, result).
            bind_res (binop_loop oper h1 result a (Ref b) [0..<Vector_len h1 a]) (\<lambda>h2.
            Inr (h2, result))))
     = Inr (h @ [\<lparr>coords = zs\<rparr>], length h)"
proof -
  let ?n = "length zs"
  let ?h1 = "h @ [\<lparr>coords = replicate ?n (PInt 0)\<rparr>]"
  have h1: "?h1 ! a = h ! a" "?h1 ! b = h ! b" "?h1 ! length h = \<lparr>coords = replicate ?n (PInt 0)\<rparr>"
    using a b by (simp_all add: nth_append)
  have "binop_loop oper ?h1 (length h) a (Ref b) [0..<?n] =
          Inr (?h1[length h := \<lparr>coords = fold (\<lambda>j xs. xs[j := zs ! j]) [0..<?n]
                                            (coords (?h1 ! length h))\<rparr>])"
    using a b len ok by (intro binop_loop_ok) (simp_all add: h1)
  also have "fold (\<lambda>j xs. xs[j := zs ! j]) [0..<?n] (coords (?h1 ! length h)) = zs"
    by (simp add: h1 fold_update_upt map_nth)
  finally have loop: "binop_loop oper ?h1 (length h) a (Ref b) [0..<?n] = Inr (h @ [\<lparr>coords = zs\<rparr>])"
    by simp
  show ?thesis
    using len loop fits_index_length [OF fits] by (simp add: Vector_len_def Vector_init_int h1)
qed

lemma Vector_add_ok:
  assumes "a < length h" and "b < length h"
    and "length (coords (h ! a)) = length zs" and "length (coords (h ! b)) = length zs"
    and "int (length zs) \<le> max_index"
    and "\<forall>j<length zs. py_add (coords (h ! a) ! j) (coords (h ! b) ! j) = Inr (zs ! j)"
  shows "Vector_add h a (Ref b) = Inr (h @ [\<lparr>coords = zs\<rparr>], length h)"
  unfolding Vector_add_def using assms by (rule binop_body_ok)

lemma Vector_sub_ok:
  assumes "a < length h" and "b < length h"
    and "length (coords (h ! a)) = length zs" and "length (coords (h ! b)) = length zs"
    and "int (length zs) \<le> max_index"
    and "\<forall>j<length zs. py_sub (coords (h ! a) ! j) (coords (h ! b) ! j) = Inr (zs ! j)"
  shows "Vector_sub h a (Ref b) = Inr (h @ [\<lparr>coords = zs\<rparr>], length h)"
  unfolding Vector_sub_def using assms by (rule binop_body_ok)

lemma list_eq_all2: "list_eq xs ys = list_all2 py_eq xs ys"
  by (induction xs ys rule: list_eq.induct) simp_all

lemma Vector_neg_ok:
  "\<forall>x\<in>set (coords (h ! a)). numeric x \<Longrightarrow>
     Vector_neg h a = Inr (h @ [\<lparr>coords = map (\<lambda>x. projr (py_neg x)) (coords (h ! a))\<rparr>], length h)"
proof -
  assume num: "\<forall>x\<in>set (coords (h ! a)). numeric x"
  have "\<exists>y. py_neg x = Inr y" if "numeric x" for x
    using that by (cases x) simp_all
  with num have "run_gen (map py_neg (coords (h ! a))) =
      Inr (map (\<lambda>x. projr (py_neg x)) (coords (h ! a)))"
    by (intro run_gen_all_Inr) blast
  then show ?thesis
    by (simp add: Vector_neg_def iter_Vector_coords Vector_init_Gen_ok)
qed

lemma binop_body_frame:
  assumes "bind_res (py_len h other) (\<lambda>m.
       if Vector_len h a \<noteq> m then Inl (ValueError ''dimensions must agree'')
       else bind_res (Vector_init h (Atom (PInt (int (Vector_len h a))))) (\<lambda>(h1, result).
            bind_res (binop_loop oper h1 result a other [0..<Vector_len h1 a]) (\<lambda>h2.
            Inr (h2, result)))) = Inr (h', r)"
  shows "fresh_result h h' r"
proof -
  from assms obtain h1 where
    i: "Vector_init h (Atom (PInt (int (Vector_len h a)))) = Inr (h1, r)"
    and l: "binop_loop oper h1 r a other [0..<Vector_len h1 a] = Inr h'"
    by (auto simp: bind_res_eq_Inr split: if_splits)
  from Vector_init_Inr [OF i] obtain cs where r: "r = length h" and h1: "h1 = h @ [\<lparr>coords = cs\<rparr>]"
    by blast
  from binop_loop_frame [OF l] have "length h' = length h1" "\<forall>x. x \<noteq> r \<longrightarrow> h' ! x = h1 ! x"
    by simp_all
  with r h1 show ?thesis
    by (auto simp: fresh_result_def allocated_def nth_append)
qed

lemma Vector_init_fresh:
  "Vector_init h d = Inr (h', r) \<Longrightarrow> fresh_result h h' r"
  by (drule Vector_init_Inr) (auto simp: fresh_result_def allocated_def nth_append)

lemma int_to_float_error: "int_to_float i = Inl e \<Longrightarrow> e = OverflowError"
  by (simp add: int_to_float_def split: pyfloat.splits)

lemma bind_float_error:
  "bind_res (int_to_float i) (\<lambda>x. Inr (f x)) = Inl e \<Longrightarrow> e = OverflowError"
  by (cases "int_to_float i") (simp_all add: int_to_float_error)

lemma str_repeat_error: "str_repeat s n = Inl e \<Longrightarrow> e = OverflowError"
  by (simp add: str_repeat_def split: if_splits)

lemma bind_repeat_error:
  "bind_res (str_repeat s n) (\<lambda>r. Inr (f r)) = Inl e \<Longrightarrow> e = OverflowError"
  by (cases "str_repeat s n") (simp_all add: str_repeat_error)

lemma py_mul_error: "py_mul x y = Inl e \<Longrightarrow> e = TypeError None \<or> e = OverflowError"
  by (cases x; cases y) (auto dest: bind_float_error bind_repeat_error)

lemma fresh_result_append: "fresh_result h (h @ [v]) (length h)"
  by (auto simp: fresh_result_def allocated_def nth_append)

lemma mul_gen_not_ValueError:
  "\<not> is_ValueError (Vector_init h (Gen (map (\<lambda>(a, b). py_mul a b) ps)))"
proof (cases "run_gen (map (\<lambda>(a, b). py_mul a b) ps)")
  case (Inl e)
  from run_gen_error [OF Inl] obtain x y where "py_mul x y = Inl e"
    by auto
  from py_mul_error [OF this] Inl show ?thesis
    by (auto simp: Vector_init_def)
next
  case (Inr cs)
  then show ?thesis
    by (simp add: Vector_init_Gen_ok)
qed

lemma int_sub_add:
  "is_int x \<Longrightarrow> is_int y \<Longrightarrow>
     py_sub x y = Inr (projr (py_sub x y)) \<and> py_add (projr (py_sub x y)) y = Inr x"
  by (cases x; cases y) simp_all

lemma int_eq_refl: "is_int x \<Longrightarrow> py_eq x x"
  by (cases x) simp_all

lemma finite_num_numeric: "finite_num c \<Longrightarrow> numeric c"
  by (cases c) simp_all

lemma round64_zero: "round64 0 = Fin 0"
  by (simp add: round64_def)

lemma non_nan_neg_neg:
  "non_nan c \<Longrightarrow>
     numeric c \<and> numeric (projr (py_neg c)) \<and> py_eq (projr (py_neg (projr (py_neg c)))) c"
  by (cases c rule: non_nan.cases) simp_all

lemma finite_add_neg:
  "finite_num c \<Longrightarrow> \<exists>z. py_add c (projr (py_neg c)) = Inr z \<and> py_eq z (PInt 0)"
  by (cases c rule: finite_num.cases) (simp_all add: round64_zero)

text \<open>
  The exponent that \<open>round64\<close> computes is the binary exponent of its argument.
\<close>

lemma pow2_power_int: "pow2 e = power_int 2 e"
  by (simp add: pow2_def power_int_def inverse_eq_divide power_one_over)

lemma bitlen_bounds_rat:
  assumes "0 < a"
  shows "pow2 (bitlen a - 1) \<le> of_int a" and "(of_int a :: rat) < pow2 (bitlen a)"
proof -
  from assms have b1: "1 \<le> bitlen a"
    by (auto simp: bitlen_alt_def)
  from bitlen_bounds [OF assms] have "2 ^ nat (bitlen a - 1) \<le> a" and "a < 2 ^ nat (bitlen a)"
    by simp_all
  then have "(of_int (2 ^ nat (bitlen a - 1)) :: rat) \<le> of_int a"
    and "(of_int a :: rat) < of_int (2 ^ nat (bitlen a))"
    by (simp_all only: of_int_le_iff of_int_less_iff)
  with b1 show "pow2 (bitlen a - 1) \<le> of_int a" and "(of_int a :: rat) < pow2 (bitlen a)"
    by (simp_all add: pow2_def)
qed

lemma floor_log2_bounds:
  assumes "0 < q"
  shows "pow2 (floor_log2 q) \<le> q \<and> q < pow2 (floor_log2 q + 1)"
proof -
  obtain a b where ab: "quotient_of q = (a, b)"
    by (cases "quotient_of q")
  then have b: "0 < b" and q: "q = of_int a / of_int b"
    by (simp_all add: quotient_of_denom_pos quotient_of_div)
  with assms have a: "0 < a"
    by (simp add: zero_less_divide_iff)
  let ?e0 = "bitlen a - bitlen b"
  note ba = bitlen_bounds_rat [OF a] and bb = bitlen_bounds_rat [OF b]
  have bpos: "(0::rat) < of_int b" "(0::rat) < pow2 (bitlen b)" "(0::rat) < pow2 (bitlen b - 1)"
    using b by (simp_all add: pow2_power_int)
  have "q < pow2 (bitlen a) / pow2 (bitlen b - 1)"
    unfolding q using ba bb bpos a
    by (intro frac_less) simp_all
  also have "\<dots> = pow2 (?e0 + 1)"
    by (simp add: pow2_power_int power_int_diff [symmetric] algebra_simps)
  finally have up: "q < pow2 (?e0 + 1)" .
  have "pow2 (?e0 - 1) = pow2 (bitlen a - 1) / pow2 (bitlen b)"
    by (simp add: pow2_power_int power_int_diff [symmetric] algebra_simps)
  also have "\<dots> \<le> q"
    unfolding q using ba bb bpos a
    by (intro frac_le) (simp_all add: less_imp_le)
  finally have lo: "pow2 (?e0 - 1) \<le> q" .
  show ?thesis
    using up lo by (simp add: floor_log2_def ab Let_def not_le)
qed

lemma bitlen_2p: "bitlen (2 ^ n) = int n + 1"
  using bitlen_pow2 [of 1 n] by (simp add: bitlen_def floorlog_def)

lemma round64_2p1024: "round64 (2 ^ 1024) = PosInf"
proof -
  have q: "quotient_of ((2::rat) ^ 1024) = (2 ^ 1024, 1)"
    using quotient_of_int [of "2 ^ 1024"] by simp
  have b: "bitlen (2 ^ 1024) = 1025" "bitlen 1 = 1"
    using bitlen_2p [of 1024] bitlen_2p [of 0] by simp_all
  have p: "pow2 1024 = 2 ^ 1024" "pow2 972 = 2 ^ 972"
    by (simp_all add: pow2_def)
  have fl: "floor_log2 (2 ^ 1024) = 1024"
    unfolding floor_log2_def Let_def q fst_conv snd_conv b by (simp add: p)
  have d: "(2::rat) ^ 1024 / 2 ^ 972 = of_int (2 ^ 52)"
    by (simp add: power_diff [symmetric] del: of_int_power)
  have rh: "round_half_even ((2::rat) ^ 1024 / 2 ^ 972) = 2 ^ 52"
    unfolding d round_half_even_def Let_def floor_of_int by simp
  have m: "(of_int (2 ^ 52) :: rat) * 2 ^ 972 = 2 ^ 1024"
    by (simp add: power_add [symmetric])
  show ?thesis
    unfolding round64_def Let_def by (simp add: fl p rh m del: power_numeral)
qed


lemma int_to_float_2p1024: "int_to_float (2 ^ 1024) = Inl OverflowError"
  by (simp add: int_to_float_def round64_2p1024 del: power_numeral)

subsection \<open>Construction from a dimension\<close>




text \<open>
  C9 as stated fails: a negative dimension that does not fit an index is refused too.
  \<^verbatim>\<open>Vector(-2**64)\<close> raises \<^verbatim>\<open>OverflowError\<close>.
\<close>

theorem Vector_init_negative_too_small:
  "Vector_init [] (Atom (PInt (- (2 ^ 64)))) = Inl OverflowError"
  by (simp add: Vector_init_overflow fits_index_def max_index_def)

text \<open>
  C9, for an index-sized dimension. For every integer \<open>d\<close> with \<open>-2^63 \<le> d < 0\<close>,
  \<^verbatim>\<open>Vector(d)\<close> raises nothing and gives a vector of length 0: \<^verbatim>\<open>[0] * d\<close> is the
  empty list.
\<close>

theorem Vector_init_negative:
  "- max_index - 1 \<le> d \<Longrightarrow> d < 0 \<Longrightarrow>
     \<exists>h' v. Vector_init h (Atom (PInt d)) = Inr (h', v)
       \<and> Vector_len h' v = 0 \<and> coords (h' ! v) = []"
proof -
  assume d: "- max_index - 1 \<le> d" "d < 0"
  then have "fits_index d"
    by (simp add: fits_index_def max_index_def)
  with d show ?thesis
    by (simp add: Vector_init_int Vector_len_def)
qed

theorem Vector_init_negative_witness:
  "- max_index - 1 \<le> - 2 \<and> (- 2::int) < 0 \<and>
     (\<exists>h' v. Vector_init [] (Atom (PInt (- 2))) = Inr (h', v)
       \<and> Vector_len h' v = 0 \<and> coords (h' ! v) = [])"
  using Vector_init_negative [of "- 2" "[]"] by (simp add: max_index_def)

subsection \<open>Operands of unequal lengths\<close>

text \<open>
  C2. For vectors \<open>a\<close> and \<open>b\<close> of unequal lengths, each of \<^verbatim>\<open>a + b\<close>, \<^verbatim>\<open>a - b\<close>,
  \<^verbatim>\<open>a < b\<close> and \<^verbatim>\<open>a <= b\<close> raises \<^verbatim>\<open>ValueError('dimensions must agree')\<close>, the
  dimension-mismatch error, and so returns no result.
\<close>

theorem unequal_lengths_ValueError:
  assumes "Vector_len h a \<noteq> Vector_len h b"
  shows "Vector_add h a (Ref b) = Inl (ValueError ''dimensions must agree'')
       \<and> Vector_sub h a (Ref b) = Inl (ValueError ''dimensions must agree'')
       \<and> Vector_lt h a (Ref b) = Inl (ValueError ''dimensions must agree'')
       \<and> Vector_le h a (Ref b) = Inl (ValueError ''dimensions must agree'')"
  using assms by (simp add: Vector_add_def Vector_sub_def Vector_lt_def Vector_le_def)

theorem unequal_lengths_ValueError_witness:
  "Vector_len [\<lparr>coords = [PInt 1, PInt 2]\<rparr>, \<lparr>coords = [PInt 1]\<rparr>] 0
     \<noteq> Vector_len [\<lparr>coords = [PInt 1, PInt 2]\<rparr>, \<lparr>coords = [PInt 1]\<rparr>] 1
   \<and> Vector_add [\<lparr>coords = [PInt 1, PInt 2]\<rparr>, \<lparr>coords = [PInt 1]\<rparr>] 0 (Ref 1)
       = Inl (ValueError ''dimensions must agree'')
   \<and> Vector_sub [\<lparr>coords = [PInt 1, PInt 2]\<rparr>, \<lparr>coords = [PInt 1]\<rparr>] 0 (Ref 1)
       = Inl (ValueError ''dimensions must agree'')
   \<and> Vector_lt [\<lparr>coords = [PInt 1, PInt 2]\<rparr>, \<lparr>coords = [PInt 1]\<rparr>] 0 (Ref 1)
       = Inl (ValueError ''dimensions must agree'')
   \<and> Vector_le [\<lparr>coords = [PInt 1, PInt 2]\<rparr>, \<lparr>coords = [PInt 1]\<rparr>] 0 (Ref 1)
       = Inl (ValueError ''dimensions must agree'')"
proof -
  have ne: "Vector_len [\<lparr>coords = [PInt 1, PInt 2]\<rparr>, \<lparr>coords = [PInt 1]\<rparr>] 0
     \<noteq> Vector_len [\<lparr>coords = [PInt 1, PInt 2]\<rparr>, \<lparr>coords = [PInt 1]\<rparr>] 1"
    by (simp add: Vector_len_def)
  from ne unequal_lengths_ValueError [OF ne] show ?thesis
    by blast
qed

subsection \<open>Indexing\<close>

text \<open>
  C7. For a vector of length \<open>n\<close>, \<^verbatim>\<open>v[i]\<close> and \<^verbatim>\<open>v[i] = x\<close> succeed exactly when
  \<open>-n \<le> i \<le> n-1\<close>; a negative \<open>i\<close> then addresses coordinate \<open>n + i\<close>, a non-negative one
  coordinate \<open>i\<close>. For every other integer both raise \<^verbatim>\<open>IndexError\<close>.
\<close>

theorem index_range:
  "(- int (Vector_len h v) \<le> i \<and> i < int (Vector_len h v) \<longrightarrow>
      Vector_getitem h v i
        = Inr (coords (h ! v) ! nat (if i < 0 then int (Vector_len h v) + i else i))
      \<and> Vector_setitem h v i x
        = Inr (h[v := \<lparr>coords =
             (coords (h ! v))[nat (if i < 0 then int (Vector_len h v) + i else i) := x]\<rparr>]))
   \<and> (\<not> (- int (Vector_len h v) \<le> i \<and> i < int (Vector_len h v)) \<longrightarrow>
      Vector_getitem h v i = Inl IndexError \<and> Vector_setitem h v i x = Inl IndexError)"
  by (auto simp: Vector_getitem_def Vector_setitem_def Vector_len_def
        list_getitem_def list_setitem_def)

theorem index_range_witness:
  "Vector_getitem [\<lparr>coords = [PInt 7, PInt 8, PInt 9]\<rparr>] 0 (- 1) = Inr (PInt 9)
   \<and> Vector_setitem [\<lparr>coords = [PInt 7, PInt 8, PInt 9]\<rparr>] 0 (- 3) (PInt 4)
       = Inr [\<lparr>coords = [PInt 4, PInt 8, PInt 9]\<rparr>]
   \<and> Vector_getitem [\<lparr>coords = [PInt 7, PInt 8, PInt 9]\<rparr>] 0 2 = Inr (PInt 9)
   \<and> Vector_getitem [\<lparr>coords = [PInt 7, PInt 8, PInt 9]\<rparr>] 0 5 = Inl IndexError
   \<and> Vector_setitem [\<lparr>coords = [PInt 7, PInt 8, PInt 9]\<rparr>] 0 (- 4) (PInt 4) = Inl IndexError"
  using index_range [of "[\<lparr>coords = [PInt 7, PInt 8, PInt 9]\<rparr>]" 0 "- 1" "PInt 4"]
    index_range [of "[\<lparr>coords = [PInt 7, PInt 8, PInt 9]\<rparr>]" 0 "- 3" "PInt 4"]
    index_range [of "[\<lparr>coords = [PInt 7, PInt 8, PInt 9]\<rparr>]" 0 2 "PInt 4"]
    index_range [of "[\<lparr>coords = [PInt 7, PInt 8, PInt 9]\<rparr>]" 0 5 "PInt 4"]
    index_range [of "[\<lparr>coords = [PInt 7, PInt 8, PInt 9]\<rparr>]" 0 "- 4" "PInt 4"]
  by (simp add: Vector_len_def)

subsection \<open>Equality with something that is not a Vector\<close>

text \<open>
  C10. For a vector \<open>v\<close> and an operand \<open>x\<close> that is not a Vector, \<^verbatim>\<open>v == x\<close> and
  \<^verbatim>\<open>v != x\<close> raise \<^verbatim>\<open>AttributeError\<close> instead of returning a boolean: \<^verbatim>\<open>__eq__\<close> reads
  \<^verbatim>\<open>x._coords\<close>.
\<close>

theorem eq_non_Vector_AttributeError:
  "\<not> is_Ref x \<Longrightarrow>
     Vector_eq h v x = Inl AttributeError \<and> Vector_ne h v x = Inl AttributeError"
  by (cases x) (simp_all add: Vector_eq_def Vector_ne_def)

theorem eq_non_Vector_AttributeError_witness:
  "\<not> is_Ref (PList [PInt 1, PInt 2])
   \<and> Vector_eq [\<lparr>coords = [PInt 1, PInt 2]\<rparr>] 0 (PList [PInt 1, PInt 2]) = Inl AttributeError
   \<and> Vector_ne [\<lparr>coords = [PInt 1, PInt 2]\<rparr>] 0 (PList [PInt 1, PInt 2]) = Inl AttributeError"
  using eq_non_Vector_AttributeError
    [of "PList [PInt 1, PInt 2]" "[\<lparr>coords = [PInt 1, PInt 2]\<rparr>]" 0]
  by simp


subsection \<open>Operands are left alone\<close>

text \<open>
  C8. Whenever \<^verbatim>\<open>a + other\<close>, \<^verbatim>\<open>other + a\<close> (right addition), \<^verbatim>\<open>a - other\<close>,
  \<^verbatim>\<open>a * other\<close>, \<^verbatim>\<open>other * a\<close> (right multiplication) or \<^verbatim>\<open>-a\<close> returns, the result is
  a newly allocated Vector, distinct from every object that existed before, and every
  such object, the operands among them, holds the coordinate list it held before.
\<close>

theorem arithmetic_fresh_result:
  "(Vector_add h a other = Inr (h', r) \<longrightarrow> fresh_result h h' r)
   \<and> (Vector_radd h a other = Inr (h', r) \<longrightarrow> fresh_result h h' r)
   \<and> (Vector_sub h a other = Inr (h', r) \<longrightarrow> fresh_result h h' r)
   \<and> (Vector_mul h a other = Inr (h', r) \<longrightarrow> fresh_result h h' r)
   \<and> (Vector_rmul h a other = Inr (h', r) \<longrightarrow> fresh_result h h' r)
   \<and> (Vector_neg h a = Inr (h', r) \<longrightarrow> fresh_result h h' r)"
proof -
  have add: "fresh_result h h' r" if "Vector_add h a other = Inr (h', r)"
    using that unfolding Vector_add_def by (rule binop_body_frame)
  have sub: "fresh_result h h' r" if "Vector_sub h a other = Inr (h', r)"
    using that unfolding Vector_sub_def by (rule binop_body_frame)
  have mul: "fresh_result h h' r" if "Vector_mul h a other = Inr (h', r)"
    using that
    by (auto simp: Vector_mul_def split: pyobj.splits pyval.splits intro: Vector_init_fresh)
  have neg: "fresh_result h h' r" if "Vector_neg h a = Inr (h', r)"
    using that by (auto simp: Vector_neg_def intro: Vector_init_fresh)
  from add sub mul neg show ?thesis
    by (simp add: Vector_radd_def Vector_rmul_def)
qed

theorem arithmetic_fresh_result_witness:
  "Vector_add [\<lparr>coords = [PInt 1, PInt 2]\<rparr>, \<lparr>coords = [PInt 3, PInt 5]\<rparr>] 0 (Ref 1)
      = Inr ([\<lparr>coords = [PInt 1, PInt 2]\<rparr>, \<lparr>coords = [PInt 3, PInt 5]\<rparr>,
              \<lparr>coords = [PInt 4, PInt 7]\<rparr>], 2)
   \<and> fresh_result [\<lparr>coords = [PInt 1, PInt 2]\<rparr>, \<lparr>coords = [PInt 3, PInt 5]\<rparr>]
         [\<lparr>coords = [PInt 1, PInt 2]\<rparr>, \<lparr>coords = [PInt 3, PInt 5]\<rparr>,
          \<lparr>coords = [PInt 4, PInt 7]\<rparr>] 2
   \<and> Vector_radd [\<lparr>coords = [PInt 1, PInt 2]\<rparr>, \<lparr>coords = [PInt 3, PInt 5]\<rparr>] 0
        (PList [PInt 10, PInt 20])
      = Inr ([\<lparr>coords = [PInt 1, PInt 2]\<rparr>, \<lparr>coords = [PInt 3, PInt 5]\<rparr>,
              \<lparr>coords = [PInt 11, PInt 22]\<rparr>], 2)
   \<and> fresh_result [\<lparr>coords = [PInt 1, PInt 2]\<rparr>, \<lparr>coords = [PInt 3, PInt 5]\<rparr>]
         [\<lparr>coords = [PInt 1, PInt 2]\<rparr>, \<lparr>coords = [PInt 3, PInt 5]\<rparr>,
          \<lparr>coords = [PInt 11, PInt 22]\<rparr>] 2
   \<and> Vector_sub [\<lparr>coords = [PInt 1, PInt 2]\<rparr>, \<lparr>coords = [PInt 3, PInt 5]\<rparr>] 0 (Ref 1)
      = Inr ([\<lparr>coords = [PInt 1, PInt 2]\<rparr>, \<lparr>coords = [PInt 3, PInt 5]\<rparr>,
              \<lparr>coords = [PInt (- 2), PInt (- 3)]\<rparr>], 2)
   \<and> fresh_result [\<lparr>coords = [PInt 1, PInt 2]\<rparr>, \<lparr>coords = [PInt 3, PInt 5]\<rparr>]
         [\<lparr>coords = [PInt 1, PInt 2]\<rparr>, \<lparr>coords = [PInt 3, PInt 5]\<rparr>,
          \<lparr>coords = [PInt (- 2), PInt (- 3)]\<rparr>] 2
   \<and> Vector_mul [\<lparr>coords = [PInt 1, PInt 2]\<rparr>, \<lparr>coords = [PInt 3, PInt 5]\<rparr>] 0 (Ref 1)
      = Inr ([\<lparr>coords = [PInt 1, PInt 2]\<rparr>, \<lparr>coords = [PInt 3, PInt 5]\<rparr>,
              \<lparr>coords = [PInt 3, PInt 10]\<rparr>], 2)
   \<and> fresh_result [\<lparr>coords = [PInt 1, PInt 2]\<rparr>, \<lparr>coords = [PInt 3, PInt 5]\<rparr>]
         [\<lparr>coords = [PInt 1, PInt 2]\<rparr>, \<lparr>coords = [PInt 3, PInt 5]\<rparr>,
          \<lparr>coords = [PInt 3, PInt 10]\<rparr>] 2
   \<and> Vector_rmul [\<lparr>coords = [PInt 1, PInt 2]\<rparr>, \<lparr>coords = [PInt 3, PInt 5]\<rparr>] 0
        (Atom (PInt 3))
      = Inr ([\<lparr>coords = [PInt 1, PInt 2]\<rparr>, \<lparr>coords = [PInt 3, PInt 5]\<rparr>,
              \<lparr>coords = [PInt 3, PInt 6]\<rparr>], 2)
   \<and> fresh_result [\<lparr>coords = [PInt 1, PInt 2]\<rparr>, \<lparr>coords = [PInt 3, PInt 5]\<rparr>]
         [\<lparr>coords = [PInt 1, PInt 2]\<rparr>, \<lparr>coords = [PInt 3, PInt 5]\<rparr>,
          \<lparr>coords = [PInt 3, PInt 6]\<rparr>] 2
   \<and> Vector_neg [\<lparr>coords = [PInt 1, PInt 2]\<rparr>, \<lparr>coords = [PInt 3, PInt 5]\<rparr>] 0
      = Inr ([\<lparr>coords = [PInt 1, PInt 2]\<rparr>, \<lparr>coords = [PInt 3, PInt 5]\<rparr>,
              \<lparr>coords = [PInt (- 1), PInt (- 2)]\<rparr>], 2)
   \<and> fresh_result [\<lparr>coords = [PInt 1, PInt 2]\<rparr>, \<lparr>coords = [PInt 3, PInt 5]\<rparr>]
         [\<lparr>coords = [PInt 1, PInt 2]\<rparr>, \<lparr>coords = [PInt 3, PInt 5]\<rparr>,
          \<lparr>coords = [PInt (- 1), PInt (- 2)]\<rparr>] 2"
proof -
  let ?h = "[\<lparr>coords = [PInt 1, PInt 2]\<rparr>, \<lparr>coords = [PInt 3, PInt 5]\<rparr>]"
  have add: "Vector_add ?h 0 (Ref 1) = Inr (?h @ [\<lparr>coords = [PInt 4, PInt 7]\<rparr>], 2)"
    by code_simp
  have radd: "Vector_radd ?h 0 (PList [PInt 10, PInt 20])
                = Inr (?h @ [\<lparr>coords = [PInt 11, PInt 22]\<rparr>], 2)"
    by code_simp
  have sub: "Vector_sub ?h 0 (Ref 1) = Inr (?h @ [\<lparr>coords = [PInt (- 2), PInt (- 3)]\<rparr>], 2)"
    by code_simp
  have mul: "Vector_mul ?h 0 (Ref 1) = Inr (?h @ [\<lparr>coords = [PInt 3, PInt 10]\<rparr>], 2)"
    by code_simp
  have rmul: "Vector_rmul ?h 0 (Atom (PInt 3)) = Inr (?h @ [\<lparr>coords = [PInt 3, PInt 6]\<rparr>], 2)"
    by code_simp
  have neg: "Vector_neg ?h 0 = Inr (?h @ [\<lparr>coords = [PInt (- 1), PInt (- 2)]\<rparr>], 2)"
    by code_simp
  from add radd sub mul rmul neg
    arithmetic_fresh_result [of ?h 0 "Ref 1" "?h @ [\<lparr>coords = [PInt 4, PInt 7]\<rparr>]" 2]
    arithmetic_fresh_result [of ?h 0 "PList [PInt 10, PInt 20]"
      "?h @ [\<lparr>coords = [PInt 11, PInt 22]\<rparr>]" 2]
    arithmetic_fresh_result [of ?h 0 "Ref 1" "?h @ [\<lparr>coords = [PInt (- 2), PInt (- 3)]\<rparr>]" 2]
    arithmetic_fresh_result [of ?h 0 "Ref 1" "?h @ [\<lparr>coords = [PInt 3, PInt 10]\<rparr>]" 2]
    arithmetic_fresh_result [of ?h 0 "Atom (PInt 3)" "?h @ [\<lparr>coords = [PInt 3, PInt 6]\<rparr>]" 2]
    arithmetic_fresh_result [of ?h 0 "Ref 1" "?h @ [\<lparr>coords = [PInt (- 1), PInt (- 2)]\<rparr>]" 2]
  show ?thesis
    by simp
qed

subsection \<open>Multiplying by something that is neither a Vector nor a number\<close>

text \<open>
  C4 as stated fails: \<^verbatim>\<open>Vector([1, 2]) * "wesh"\<close> raises \<^verbatim>\<open>AssertionError\<close>, from the
  \<^verbatim>\<open>assert\<close> that opens \<^verbatim>\<open>__mul__\<close>, which is not of the class \<^verbatim>\<open>TypeError\<close>.
\<close>

theorem mul_wesh_AssertionError:
  "Vector_mul [\<lparr>coords = [PInt 1, PInt 2]\<rparr>] 0 (Atom (PStr ''wesh''))
     = Inl (AssertionError (''can'' @ [CHR 0x27] @ ''t multiply Vector and <class ''
                             @ [CHR 0x27] @ ''str'' @ [CHR 0x27] @ ''>''))
   \<and> \<not> is_TypeError (Vector_mul [\<lparr>coords = [PInt 1, PInt 2]\<rparr>] 0 (Atom (PStr ''wesh'')))"
  by (simp add: Vector_mul_def)

text \<open>
  C4, as the code has it. For a vector \<open>v\<close> and an operand \<open>x\<close> that is neither a Vector
  nor an int or float, \<^verbatim>\<open>v * x\<close> raises \<^verbatim>\<open>AssertionError\<close>, and the message names the
  type of \<open>x\<close>: \<^verbatim>\<open>can't multiply Vector and <class '...'>\<close>.
\<close>

theorem mul_unsupported_AssertionError:
  "\<not> is_Ref x \<Longrightarrow> \<not> is_scalar x \<Longrightarrow>
     Vector_mul h v x
       = Inl (AssertionError (''can'' @ [CHR 0x27] @ ''t multiply Vector and '' @ type_repr x))"
  by (cases x rule: is_scalar.cases) (simp_all add: Vector_mul_def)

theorem mul_unsupported_AssertionError_witness:
  "\<not> is_Ref (Atom (PStr ''wesh'')) \<and> \<not> is_scalar (Atom (PStr ''wesh''))
   \<and> Vector_mul [\<lparr>coords = [PInt 1, PInt 2]\<rparr>] 0 (Atom (PStr ''wesh''))
       = Inl (AssertionError (''can'' @ [CHR 0x27] @ ''t multiply Vector and ''
                               @ type_repr (Atom (PStr ''wesh''))))"
  using mul_unsupported_AssertionError [of "Atom (PStr ''wesh'')" "[\<lparr>coords = [PInt 1, PInt 2]\<rparr>]" 0]
  by simp


subsection \<open>The product of two vectors\<close>

text \<open>
  C3 as stated fails: the product does not always succeed. With an int beyond the float
  range on one side and a float on the other, \<^verbatim>\<open>Vector([2**1024]) * Vector([1.0])\<close>,
  the coordinate product itself raises \<^verbatim>\<open>OverflowError\<close>, which \<^verbatim>\<open>__init__\<close> lets pass.
\<close>

theorem mul_vectors_OverflowError:
  "Vector_mul [\<lparr>coords = [PInt (2 ^ 1024)]\<rparr>, \<lparr>coords = [PFloat (Fin 1)]\<rparr>] 0 (Ref 1)
     = Inl OverflowError"
  by (simp add: Vector_mul_def iter_Vector_coords Vector_init_def int_to_float_2p1024
        del: power_numeral)

text \<open>
  C3, as the code has it. For any two vectors \<open>u\<close> and \<open>v\<close>, of equal lengths or not,
  \<^verbatim>\<open>u * v\<close> never raises the dimension-mismatch \<^verbatim>\<open>ValueError\<close>; and whenever each
  coordinate product \<^verbatim>\<open>u[j] * v[j]\<close> below the shorter length is defined, it returns a new
  Vector whose length is the minimum of the two lengths and whose coordinate \<open>j\<close> is
  \<^verbatim>\<open>u[j] * v[j]\<close>.
\<close>

theorem mul_vectors_min_length:
  "\<not> is_ValueError (Vector_mul h u (Ref v))
   \<and> ((\<forall>j < min (Vector_len h u) (Vector_len h v).
          \<exists>p. py_mul (coords (h ! u) ! j) (coords (h ! v) ! j) = Inr p) \<longrightarrow>
       (\<exists>h' w. Vector_mul h u (Ref v) = Inr (h', w) \<and> fresh_result h h' w
          \<and> Vector_len h' w = min (Vector_len h u) (Vector_len h v)
          \<and> (\<forall>j < min (Vector_len h u) (Vector_len h v).
                py_mul (coords (h ! u) ! j) (coords (h ! v) ! j) = Inr (coords (h' ! w) ! j))))"
proof (intro conjI impI)
  show "\<not> is_ValueError (Vector_mul h u (Ref v))"
    by (simp add: Vector_mul_def mul_gen_not_ValueError)
next
  let ?cu = "coords (h ! u)" and ?cv = "coords (h ! v)"
  let ?g = "\<lambda>(a, b). py_mul a b"
  let ?ws = "map (\<lambda>x. projr (?g x)) (zip ?cu ?cv)"
  assume "\<forall>j < min (Vector_len h u) (Vector_len h v).
            \<exists>p. py_mul (coords (h ! u) ! j) (coords (h ! v) ! j) = Inr p"
  then have ok: "\<forall>j < min (length ?cu) (length ?cv). \<exists>p. py_mul (?cu ! j) (?cv ! j) = Inr p"
    by (simp add: Vector_len_def)
  then have "\<forall>x\<in>set (zip ?cu ?cv). \<exists>y. ?g x = Inr y"
    by (auto simp: set_zip)
  then have "run_gen (map ?g (zip ?cu ?cv)) = Inr ?ws"
    by (rule run_gen_all_Inr)
  then have mul: "Vector_mul h u (Ref v) = Inr (h @ [\<lparr>coords = ?ws\<rparr>], length h)"
    by (simp add: Vector_mul_def iter_Vector_coords Vector_init_Gen_ok)
  have "py_mul (?cu ! j) (?cv ! j) = Inr (?ws ! j)" if "j < min (length ?cu) (length ?cv)" for j
    using ok that by auto
  with mul show "\<exists>h' w. Vector_mul h u (Ref v) = Inr (h', w) \<and> fresh_result h h' w
          \<and> Vector_len h' w = min (Vector_len h u) (Vector_len h v)
          \<and> (\<forall>j < min (Vector_len h u) (Vector_len h v).
                py_mul (coords (h ! u) ! j) (coords (h ! v) ! j) = Inr (coords (h' ! w) ! j))"
    by (simp add: fresh_result_append Vector_len_def)
qed

theorem mul_vectors_min_length_witness:
  "py_mul (coords ([\<lparr>coords = [PInt 2, PInt 5]\<rparr>, \<lparr>coords = [PInt 3]\<rparr>] ! 0) ! 0)
          (coords ([\<lparr>coords = [PInt 2, PInt 5]\<rparr>, \<lparr>coords = [PInt 3]\<rparr>] ! 1) ! 0) = Inr (PInt 6)
   \<and> \<not> is_ValueError (Vector_mul [\<lparr>coords = [PInt 2, PInt 5]\<rparr>, \<lparr>coords = [PInt 3]\<rparr>] 0 (Ref 1))
   \<and> (\<exists>h' w. Vector_mul [\<lparr>coords = [PInt 2, PInt 5]\<rparr>, \<lparr>coords = [PInt 3]\<rparr>] 0 (Ref 1) = Inr (h', w)
          \<and> fresh_result [\<lparr>coords = [PInt 2, PInt 5]\<rparr>, \<lparr>coords = [PInt 3]\<rparr>] h' w
          \<and> Vector_len h' w = 1
          \<and> Vector_getitem h' w 0 = Inr (PInt 6))"
proof -
  let ?h = "[\<lparr>coords = [PInt 2, PInt 5]\<rparr>, \<lparr>coords = [PInt 3]\<rparr>]"
  have hyp: "\<forall>j < min (Vector_len ?h 0) (Vector_len ?h 1).
      \<exists>p. py_mul (coords (?h ! 0) ! j) (coords (?h ! 1) ! j) = Inr p"
    by (simp add: Vector_len_def)
  from mul_vectors_min_length [of ?h 0 1] hyp obtain h' w
    where nv: "\<not> is_ValueError (Vector_mul ?h 0 (Ref 1))"
      and m: "Vector_mul ?h 0 (Ref 1) = Inr (h', w)" and f: "fresh_result ?h h' w"
      and l: "Vector_len h' w = min (Vector_len ?h 0) (Vector_len ?h 1)"
      and c: "\<forall>j < min (Vector_len ?h 0) (Vector_len ?h 1).
                py_mul (coords (?h ! 0) ! j) (coords (?h ! 1) ! j) = Inr (coords (h' ! w) ! j)"
    by blast
  from l have l1: "Vector_len h' w = 1"
    by (simp add: Vector_len_def)
  from c have "coords (h' ! w) ! 0 = PInt 6"
    by (simp add: Vector_len_def)
  with l1 have "Vector_getitem h' w 0 = Inr (PInt 6)"
    by (simp add: Vector_getitem_def Vector_len_def list_getitem_def)
  with nv m f l1 show ?thesis
    by simp
qed

subsection \<open>Subtracting and adding back\<close>

text \<open>
  C5 as stated fails for floats, whose subtraction and addition round:
  \<^verbatim>\<open>(Vector([1.0]) - Vector([1e16])) + Vector([1e16])\<close> is \<^verbatim>\<open><0.0>\<close>, which is not equal to
  \<^verbatim>\<open><1.0>\<close>.
\<close>

theorem sub_add_roundtrip_float:
  "sub_add_roundtrip [\<lparr>coords = [PFloat (Fin 1)]\<rparr>,
                      \<lparr>coords = [PFloat (Fin 10000000000000000)]\<rparr>] 0 1 = Inr False"
  by code_simp

text \<open>
  C5, for integers. For vectors \<open>a\<close> and \<open>b\<close> of equal length whose coordinates are all
  ints, \<^verbatim>\<open>(a - b) + b == a\<close> is \<^verbatim>\<open>True\<close>.
\<close>

theorem sub_add_roundtrip_int:
  assumes a: "is_Vector h a" and b: "is_Vector h b"
    and len: "Vector_len h a = Vector_len h b"
    and ia: "\<forall>c\<in>set (coords (h ! a)). is_int c"
    and ib: "\<forall>c\<in>set (coords (h ! b)). is_int c"
  shows "sub_add_roundtrip h a b = Inr True"
proof -
  let ?ca = "coords (h ! a)" and ?cb = "coords (h ! b)"
  let ?n = "length ?ca"
  let ?ds = "map (\<lambda>j. projr (py_sub (?ca ! j) (?cb ! j))) [0..<?n]"
  let ?h1 = "h @ [\<lparr>coords = ?ds\<rparr>]"
  let ?h2 = "?h1 @ [\<lparr>coords = ?ca\<rparr>]"
  from a b have lt: "a < length h" "b < length h" and fits: "int ?n \<le> max_index"
    by (simp_all add: is_Vector_def allocated_def)
  from len have n: "length ?cb = ?n"
    by (simp add: Vector_len_def)
  have elem: "py_sub (?ca ! j) (?cb ! j) = Inr (?ds ! j) \<and> py_add (?ds ! j) (?cb ! j) = Inr (?ca ! j)"
    if "j < ?n" for j
    using that ia ib n int_sub_add [of "?ca ! j" "?cb ! j"] by simp
  have sub: "Vector_sub h a (Ref b) = Inr (?h1, length h)"
    using lt n elem fits by (intro Vector_sub_ok) simp_all
  have add: "Vector_add ?h1 (length h) (Ref b) = Inr (?h2, length ?h1)"
    using lt n elem fits by (intro Vector_add_ok) (simp_all add: nth_append)
  have "list_eq ?ca ?ca"
    using ia by (simp add: list_eq_all2 list_all2_conv_all_nth int_eq_refl)
  then have "Vector_eq ?h2 (length ?h1) (Ref a) = Inr True"
    using lt by (simp add: Vector_eq_def nth_append)
  with sub add show ?thesis
    by (simp add: sub_add_roundtrip_def)
qed

theorem sub_add_roundtrip_int_witness:
  "is_Vector [\<lparr>coords = [PInt 7, PInt (- 2)]\<rparr>, \<lparr>coords = [PInt 3, PInt 10]\<rparr>] 0
   \<and> is_Vector [\<lparr>coords = [PInt 7, PInt (- 2)]\<rparr>, \<lparr>coords = [PInt 3, PInt 10]\<rparr>] 1
   \<and> Vector_len [\<lparr>coords = [PInt 7, PInt (- 2)]\<rparr>, \<lparr>coords = [PInt 3, PInt 10]\<rparr>] 0
       = Vector_len [\<lparr>coords = [PInt 7, PInt (- 2)]\<rparr>, \<lparr>coords = [PInt 3, PInt 10]\<rparr>] 1
   \<and> list_all is_int (coords ([\<lparr>coords = [PInt 7, PInt (- 2)]\<rparr>, \<lparr>coords = [PInt 3, PInt 10]\<rparr>] ! 0))
   \<and> list_all is_int (coords ([\<lparr>coords = [PInt 7, PInt (- 2)]\<rparr>, \<lparr>coords = [PInt 3, PInt 10]\<rparr>] ! 1))
   \<and> sub_add_roundtrip [\<lparr>coords = [PInt 7, PInt (- 2)]\<rparr>, \<lparr>coords = [PInt 3, PInt 10]\<rparr>] 0 1 = Inr True"
proof -
  let ?h = "[\<lparr>coords = [PInt 7, PInt (- 2)]\<rparr>, \<lparr>coords = [PInt 3, PInt 10]\<rparr>]"
  have h: "is_Vector ?h 0" "is_Vector ?h 1" "Vector_len ?h 0 = Vector_len ?h 1"
    "\<forall>c\<in>set (coords (?h ! 0)). is_int c" "\<forall>c\<in>set (coords (?h ! 1)). is_int c"
    by (simp_all add: is_Vector_def allocated_def max_index_def Vector_len_def)
  from h sub_add_roundtrip_int [OF h] show ?thesis
    by (simp add: list_all_iff)
qed

subsection \<open>Negation\<close>

text \<open>
  C6 as stated fails for floats that are not finite. \<^verbatim>\<open>inf + (-inf)\<close>,
  \<^verbatim>\<open>-inf + inf\<close> and \<^verbatim>\<open>nan + (-nan)\<close> are NaN, so for \<^verbatim>\<open>v = Vector([float('inf')])\<close>,
  \<^verbatim>\<open>v = Vector([float('-inf')])\<close> and \<^verbatim>\<open>v = Vector([float('nan')])\<close> the sum \<^verbatim>\<open>v + (-v)\<close> is
  not equal to the zero vector; and
  NaN is not equal to NaN, so for \<^verbatim>\<open>v = Vector([float('nan')])\<close> the vector \<^verbatim>\<open>-(-v)\<close>, made
  of new floats, is not equal to \<open>v\<close>.
\<close>

theorem neg_laws_inf_nan:
  "add_neg_eq_zero [\<lparr>coords = [PFloat PosInf]\<rparr>] 0 = Inr False
   \<and> add_neg_eq_zero [\<lparr>coords = [PFloat NegInf]\<rparr>] 0 = Inr False
   \<and> add_neg_eq_zero [\<lparr>coords = [PFloat NaN]\<rparr>] 0 = Inr False
   \<and> neg_neg_eq [\<lparr>coords = [PFloat NaN]\<rparr>] 0 = Inr False"
  by code_simp

text \<open>
  C6, without NaN and infinities. For a vector \<open>v\<close> whose coordinates are ints or floats
  other than NaN, \<^verbatim>\<open>-(-v) == v\<close> is \<^verbatim>\<open>True\<close>; for a vector \<open>v\<close> whose coordinates are
  ints or finite floats, \<^verbatim>\<open>v + (-v) == Vector(len(v))\<close> is \<^verbatim>\<open>True\<close>.
\<close>

theorem neg_laws:
  assumes v: "is_Vector h v"
  shows "((\<forall>c\<in>set (coords (h ! v)). non_nan c) \<longrightarrow> neg_neg_eq h v = Inr True)
       \<and> ((\<forall>c\<in>set (coords (h ! v)). finite_num c) \<longrightarrow> add_neg_eq_zero h v = Inr True)"
proof (intro conjI impI)
  let ?cs = "coords (h ! v)"
  let ?neg = "\<lambda>x. projr (py_neg x)"
  let ?h1 = "h @ [\<lparr>coords = map ?neg ?cs\<rparr>]"
  from v have lt: "v < length h" and fits: "int (length ?cs) \<le> max_index"
    by (simp_all add: is_Vector_def allocated_def)
  have n1: "Vector_neg h v = Inr (?h1, length h)" if "\<forall>c\<in>set ?cs. numeric c"
    using that by (rule Vector_neg_ok)
  {
    assume nn: "\<forall>c\<in>set ?cs. non_nan c"
    let ?h2 = "?h1 @ [\<lparr>coords = map ?neg (map ?neg ?cs)\<rparr>]"
    from nn have num: "\<forall>c\<in>set ?cs. numeric c"
      by (simp add: non_nan_neg_neg)
    have "\<forall>x\<in>set (coords (?h1 ! length h)). numeric x"
      using nn by (auto simp: non_nan_neg_neg)
    from Vector_neg_ok [OF this] have n2: "Vector_neg ?h1 (length h) = Inr (?h2, length ?h1)"
      by simp
    have "list_eq (map ?neg (map ?neg ?cs)) ?cs"
      using nn by (simp add: list_eq_all2 list_all2_conv_all_nth non_nan_neg_neg)
    then have "Vector_eq ?h2 (length ?h1) (Ref v) = Inr True"
      using lt by (simp add: Vector_eq_def nth_append)
    with n1 [OF num] n2 show "neg_neg_eq h v = Inr True"
      by (simp add: neg_neg_eq_def)
  }
  {
    assume fin: "\<forall>c\<in>set ?cs. finite_num c"
    let ?zs = "map (\<lambda>c. projr (py_add c (?neg c))) ?cs"
    let ?h2 = "?h1 @ [\<lparr>coords = ?zs\<rparr>]"
    let ?h3 = "?h2 @ [\<lparr>coords = replicate (length ?cs) (PInt 0)\<rparr>]"
    from fin have num: "\<forall>c\<in>set ?cs. numeric c"
      by (simp add: finite_num_numeric)
    have elem: "py_add (?cs ! j) (?neg (?cs ! j)) = Inr (?zs ! j) \<and> py_eq (?zs ! j) (PInt 0)"
      if "j < length ?cs" for j
    proof -
      from fin that have "finite_num (?cs ! j)"
        by simp
      from finite_add_neg [OF this] obtain z
        where "py_add (?cs ! j) (?neg (?cs ! j)) = Inr z" and "py_eq z (PInt 0)"
        by blast
      with that show ?thesis
        by simp
    qed
    have add: "Vector_add ?h1 v (Ref (length h)) = Inr (?h2, length ?h1)"
      using lt elem fits by (intro Vector_add_ok) (simp_all add: nth_append)
    have init: "Vector_init ?h2 (Atom (PInt (int (Vector_len ?h2 v)))) = Inr (?h3, length ?h2)"
      using lt fits_index_length [OF fits]
      by (simp add: Vector_init_int Vector_len_def nth_append)
    have "list_eq ?zs (replicate (length ?cs) (PInt 0))"
      using elem by (simp add: list_eq_all2 list_all2_conv_all_nth)
    then have "Vector_eq ?h3 (length ?h1) (Ref (length ?h2)) = Inr True"
      by (simp add: Vector_eq_def nth_append)
    with n1 [OF num] add init show "add_neg_eq_zero h v = Inr True"
      by (simp add: add_neg_eq_zero_def)
  }
qed

theorem neg_laws_witness:
  "is_Vector [\<lparr>coords = [PInt 3, PFloat NegInf]\<rparr>] 0
   \<and> list_all non_nan (coords ([\<lparr>coords = [PInt 3, PFloat NegInf]\<rparr>] ! 0))
   \<and> neg_neg_eq [\<lparr>coords = [PInt 3, PFloat NegInf]\<rparr>] 0 = Inr True
   \<and> is_Vector [\<lparr>coords = [PInt 3, PFloat (Fin (1 / 2))]\<rparr>] 0
   \<and> list_all finite_num (coords ([\<lparr>coords = [PInt 3, PFloat (Fin (1 / 2))]\<rparr>] ! 0))
   \<and> add_neg_eq_zero [\<lparr>coords = [PInt 3, PFloat (Fin (1 / 2))]\<rparr>] 0 = Inr True"
proof -
  let ?h = "[\<lparr>coords = [PInt 3, PFloat NegInf]\<rparr>]"
  let ?k = "[\<lparr>coords = [PInt 3, PFloat (Fin (1 / 2))]\<rparr>]"
  have h: "is_Vector ?h 0" and nn: "\<forall>c\<in>set (coords (?h ! 0)). non_nan c"
    and k: "is_Vector ?k 0" and fin: "\<forall>c\<in>set (coords (?k ! 0)). finite_num c"
    by (simp_all add: is_Vector_def allocated_def max_index_def)
  from h nn k fin neg_laws [OF h] neg_laws [OF k] show ?thesis
    by (simp add: list_all_iff)
qed

end
